theory Spec2Isabelle
  imports Main "HOL-Library.AList"
begin

section \<open>Strings\<close>

text \<open>
  Python text is modelled as \<^typ>\<open>string\<close>; the model covers ASCII text, where
  \<^verbatim>\<open>str.strip\<close> removes the ten ASCII white-space characters and
  \<^verbatim>\<open>str.lower\<close> maps \<^verbatim>\<open>A-Z\<close> to \<^verbatim>\<open>a-z\<close>.
\<close>

definition is_space :: "char \<Rightarrow> bool" where
  "is_space c =
     (let n = (of_char c :: nat) in (9 \<le> n \<and> n \<le> 13) \<or> (28 \<le> n \<and> n \<le> 32))"

definition strip :: "string \<Rightarrow> string" where
  "strip s = rev (dropWhile is_space (rev (dropWhile is_space s)))"

definition startswith :: "string \<Rightarrow> string \<Rightarrow> bool" where
  "startswith s prefix = (take (length prefix) s = prefix)"

text \<open>
  \<^verbatim>\<open>line.split('==', 1)\<close>: the text before and after the first occurrence of
  \<^verbatim>\<open>==\<close>; \<open>None\<close> when \<^verbatim>\<open>'==' in line\<close> is false.
\<close>

fun split_eqeq :: "string \<Rightarrow> (string \<times> string) option" where
  "split_eqeq [] = None"
| "split_eqeq [c] = None"
| "split_eqeq (a # b # rest) =
     (if a = CHR ''='' \<and> b = CHR ''='' then Some ([], rest)
      else (case split_eqeq (b # rest) of
              None \<Rightarrow> None
            | Some (package, version) \<Rightarrow> Some (a # package, version)))"

definition contains_eqeq :: "string \<Rightarrow> bool" where
  "contains_eqeq line = (split_eqeq line \<noteq> None)"

definition lower_char :: "char \<Rightarrow> char" where
  "lower_char c =
     (let n = (of_char c :: nat) in if 65 \<le> n \<and> n \<le> 90 then char_of (n + 32) else c)"

definition lower :: "string \<Rightarrow> string" where
  "lower s = map lower_char s"

definition replace_hyphen :: "string \<Rightarrow> string" where
  "replace_hyphen s = map (\<lambda>c. if c = CHR ''-'' then CHR ''_'' else c) s"

text \<open>\<^verbatim>\<open>name.lower().replace('-', '_')\<close>\<close>

definition normalize :: "string \<Rightarrow> string" where
  "normalize name = replace_hyphen (lower name)"

section \<open>Files, exceptions, dictionaries\<close>

datatype exception =
    FileNotFoundError
  | PermissionError
  | IsADirectoryError
  | UnicodeDecodeError
  | PackageNotFoundError string
  | OtherException string

datatype path = Path string

text \<open>
  What \<^verbatim>\<open>open(path, 'r', encoding='utf-8')\<close> followed by iteration over the file
  does: it yields the lines of the file, or raises.
\<close>

datatype file_state = Lines "string list" | Raises exception

type_synonym filesystem = "path \<Rightarrow> file_state"

text \<open>The line \<^verbatim>\<open>Warning: {path} not found\<close> printed on standard output.\<close>

datatype printed = Warning_not_found path

text \<open>
  A Python \<^verbatim>\<open>dict\<close> is an association list in insertion order with distinct keys:
  \<^verbatim>\<open>d[k] = v\<close> is \<^const>\<open>AList.update\<close> (in place for a present key, appended
  otherwise), \<^verbatim>\<open>d.get(k)\<close> is \<^const>\<open>map_of\<close>, iteration runs over
  \<open>map fst\<close>.
\<close>

type_synonym dict = "(string \<times> string) list"

definition get_default :: "dict \<Rightarrow> string \<Rightarrow> string \<Rightarrow> string" where
  "get_default d k dflt = (case map_of d k of None \<Rightarrow> dflt | Some v \<Rightarrow> v)"

text \<open>
  A Python \<^verbatim>\<open>set\<close> of strings is a duplicate-free list; \<open>set_add\<close> keeps
  the order of first insertion. The order in which the source iterates over the set is
  not fixed by Python: the theorems below on the resolver speak of the content of the
  resulting map only, which is the same for every order, and the theorem on normalized
  lookups holds for every dictionary, whatever the order of its keys.
\<close>

definition set_add :: "string \<Rightarrow> string list \<Rightarrow> string list" where
  "set_add x xs = (if x \<in> set xs then xs else xs @ [x])"

section \<open>Fake-version resolver: \<^verbatim>\<open>load_exclude_packages_and_versions\<close>\<close>

text \<open>Lines 16-19: the loop over the lines of the excludes file.\<close>

fun excludes_loop :: "string list \<Rightarrow> string list \<Rightarrow> string list" where
  "excludes_loop [] excluded_packages = excluded_packages"
| "excludes_loop (l # ls) excluded_packages =
     (let line = strip l in
      if line \<noteq> [] \<and> \<not> startswith line ''#''
      then excludes_loop ls (set_add line excluded_packages)
      else excludes_loop ls excluded_packages)"

text \<open>Lines 14-21: only \<^verbatim>\<open>FileNotFoundError\<close> is caught.\<close>

definition read_excludes :: "filesystem \<Rightarrow> path \<Rightarrow> (exception + string list) \<times> printed list" where
  "read_excludes fs excludes_file =
     (case fs excludes_file of
        Lines ls \<Rightarrow> (Inr (excludes_loop ls []), [])
      | Raises e \<Rightarrow>
          (if e = FileNotFoundError then (Inr [], [Warning_not_found excludes_file])
           else (Inl e, [])))"

text \<open>Lines 29-33: the loop over the lines of the requirements file.\<close>

definition requirements_line :: "string \<Rightarrow> dict \<Rightarrow> dict" where
  "requirements_line l package_versions =
     (let line = strip l in
      if line \<noteq> [] \<and> \<not> startswith line ''#'' then
        (case split_eqeq line of
           None \<Rightarrow> package_versions
         | Some (package, version) \<Rightarrow>
             AList.update (strip package) (strip version) package_versions)
      else package_versions)"

fun requirements_loop :: "string list \<Rightarrow> dict \<Rightarrow> dict" where
  "requirements_loop [] package_versions = package_versions"
| "requirements_loop (l # ls) package_versions =
     requirements_loop ls (requirements_line l package_versions)"

text \<open>Lines 27-35.\<close>

definition read_requirements :: "filesystem \<Rightarrow> path \<Rightarrow> (exception + dict) \<times> printed list" where
  "read_requirements fs requirements_file =
     (case fs requirements_file of
        Lines ls \<Rightarrow> (Inr (requirements_loop ls []), [])
      | Raises e \<Rightarrow>
          (if e = FileNotFoundError then (Inr [], [Warning_not_found requirements_file])
           else (Inl e, [])))"

definition default_version :: string where
  "default_version = ''1.0.0''"

text \<open>
  Lines 43-51: the version chosen for one excluded package inside the loop.
  \<^verbatim>\<open>not version\<close> holds for \<^verbatim>\<open>None\<close> and for the empty string.
\<close>

definition loop_version :: "dict \<Rightarrow> string \<Rightarrow> string" where
  "loop_version package_versions package =
     (let version = map_of package_versions package in
      if version = None \<or> version = Some [] then
        (if package = ''PIL'' then get_default package_versions ''pillow'' default_version
         else if package = ''sklearn''
           then get_default package_versions ''scikit-learn'' default_version
         else default_version)
      else the version)"

text \<open>Lines 41-53.\<close>

fun fake_loop :: "dict \<Rightarrow> string list \<Rightarrow> dict \<Rightarrow> dict" where
  "fake_loop package_versions [] fake_versions = fake_versions"
| "fake_loop package_versions (package # rest) fake_versions =
     fake_loop package_versions rest
       (AList.update package (loop_version package_versions package) fake_versions)"

text \<open>Lines 55-59.\<close>

definition add_special_mappings :: "dict \<Rightarrow> dict \<Rightarrow> dict" where
  "add_special_mappings package_versions fake_versions =
     (let fv1 = (case map_of package_versions ''pillow'' of
                   Some v \<Rightarrow> AList.update ''PIL'' v fake_versions
                 | None \<Rightarrow> fake_versions)
      in (case map_of package_versions ''scikit-learn'' of
            Some v \<Rightarrow> AList.update ''sklearn'' v fv1
          | None \<Rightarrow> fv1))"

text \<open>Lines 37-61.\<close>

definition build_fake_versions :: "string list \<Rightarrow> dict \<Rightarrow> dict" where
  "build_fake_versions excluded_packages package_versions =
     add_special_mappings package_versions (fake_loop package_versions excluded_packages [])"

definition load_exclude_packages_and_versions ::
  "filesystem \<Rightarrow> string \<Rightarrow> string \<Rightarrow> (exception + dict) \<times> printed list" where
  "load_exclude_packages_and_versions fs excludes_file requirements_file =
     (case read_excludes fs (Path excludes_file) of
        (Inl e, out1) \<Rightarrow> (Inl e, out1)
      | (Inr excluded_packages, out1) \<Rightarrow>
          (case read_requirements fs (Path requirements_file) of
             (Inl e, out2) \<Rightarrow> (Inl e, out1 @ out2)
           | (Inr package_versions, out2) \<Rightarrow>
               (Inr (build_fake_versions excluded_packages package_versions), out1 @ out2)))"

text \<open>
  The Exclusion Set and the Version Table that a call reads, as a set and a map; a
  source that cannot be opened contributes nothing.
\<close>

definition exclusion_set :: "filesystem \<Rightarrow> string \<Rightarrow> string set" where
  "exclusion_set fs excludes_file =
     (case fs (Path excludes_file) of Lines ls \<Rightarrow> set (excludes_loop ls []) | Raises e \<Rightarrow> {})"

definition version_table :: "filesystem \<Rightarrow> string \<Rightarrow> (string \<rightharpoonup> string)" where
  "version_table fs requirements_file =
     (case fs (Path requirements_file) of
        Lines ls \<Rightarrow> map_of (requirements_loop ls [])
      | Raises e \<Rightarrow> Map.empty)"

section \<open>Metadata interceptor: \<^verbatim>\<open>patch_importlib_metadata\<close>\<close>

text \<open>The object built by \<^verbatim>\<open>create_fake_distribution\<close> (lines 121-140).\<close>

record FakeDistribution =
  metadata :: dict
  name_field :: string
  version_field :: string

definition create_fake_distribution :: "string \<Rightarrow> string \<Rightarrow> FakeDistribution" where
  "create_fake_distribution name version =
     \<lparr>metadata = [(''Name'', name), (''Version'', version)],
      name_field = name, version_field = version\<rparr>"

definition getitem :: "FakeDistribution \<Rightarrow> string \<Rightarrow> string option" where
  "getitem d key = map_of (metadata d) key"

text \<open>
  A descriptor returned by a distribution lookup: a fake one, or one of the registry's own
  (of an arbitrary type \<open>'d\<close>).
\<close>

datatype 'd descriptor = Fake FakeDistribution | Real 'd

text \<open>
  The process-wide registry \<^verbatim>\<open>importlib.metadata\<close> as it is before any patch: its
  two lookup functions. A lookup returns its value or raises; each call of a registry
  function is recorded in a trace.
\<close>

record 'd registry =
  registry_version :: "string \<Rightarrow> exception + string"
  registry_distribution :: "string \<Rightarrow> exception + 'd"

datatype call = Version_call string | Distribution_call string

type_synonym 'a traced = "(exception + 'a) \<times> call list"

text \<open>Lines 86-88 and 104-106: the first key, in dictionary order, whose normal form matches.\<close>

fun find_fake_key :: "string list \<Rightarrow> string \<Rightarrow> string option" where
  "find_fake_key [] normalized_name = None"
| "find_fake_key (fake_key # keys) normalized_name =
     (if normalize fake_key = normalized_name then Some fake_key
      else find_fake_key keys normalized_name)"

text \<open>
  Lines 79-95. The \<^verbatim>\<open>try ... except Exception: raise\<close> around the call of the original
  returns what the original returns and raises what it raises.
\<close>

definition patched_version ::
  "dict \<Rightarrow> (string \<Rightarrow> string traced) \<Rightarrow> string \<Rightarrow> string traced" where
  "patched_version FAKE_VERSIONS original_version dist_name =
     (case map_of FAKE_VERSIONS dist_name of
        Some v \<Rightarrow> (Inr v, [])
      | None \<Rightarrow>
          (case find_fake_key (map fst FAKE_VERSIONS) (normalize dist_name) of
             Some fake_key \<Rightarrow> (Inr (the (map_of FAKE_VERSIONS fake_key)), [])
           | None \<Rightarrow> original_version dist_name))"

text \<open>Lines 97-109.\<close>

definition patched_distribution ::
  "dict \<Rightarrow> (string \<Rightarrow> 'd descriptor traced) \<Rightarrow> string \<Rightarrow> 'd descriptor traced" where
  "patched_distribution FAKE_VERSIONS original_distribution dist_name =
     (case map_of FAKE_VERSIONS dist_name of
        Some v \<Rightarrow> (Inr (Fake (create_fake_distribution dist_name v)), [])
      | None \<Rightarrow>
          (case find_fake_key (map fst FAKE_VERSIONS) (normalize dist_name) of
             Some fake_key \<Rightarrow>
               (Inr (Fake (create_fake_distribution dist_name
                  (the (map_of FAKE_VERSIONS fake_key)))), [])
           | None \<Rightarrow> original_distribution dist_name))"

text \<open>
  Function values bound to \<^verbatim>\<open>metadata.version\<close> and \<^verbatim>\<open>metadata.distribution\<close>:
  the registry's own function, or a closure created by one call of
  \<^verbatim>\<open>patch_importlib_metadata\<close>, which holds that call's \<^verbatim>\<open>FAKE_VERSIONS\<close> and the
  function value it captured as \<^verbatim>\<open>original_version\<close> (\<^verbatim>\<open>original_distribution\<close>).
\<close>

datatype version_fn = Registry_version | Patched_version dict version_fn

datatype distribution_fn = Registry_distribution | Patched_distribution dict distribution_fn

primrec call_version :: "'d registry \<Rightarrow> version_fn \<Rightarrow> string \<Rightarrow> string traced" where
  "call_version R Registry_version = (\<lambda>dist_name. (registry_version R dist_name, [Version_call dist_name]))"
| "call_version R (Patched_version FAKE_VERSIONS original_version) =
     patched_version FAKE_VERSIONS (call_version R original_version)"

primrec call_distribution ::
  "'d registry \<Rightarrow> distribution_fn \<Rightarrow> string \<Rightarrow> 'd descriptor traced" where
  "call_distribution R Registry_distribution =
     (\<lambda>dist_name. (map_sum id Real (registry_distribution R dist_name),
                   [Distribution_call dist_name]))"
| "call_distribution R (Patched_distribution FAKE_VERSIONS original_distribution) =
     patched_distribution FAKE_VERSIONS (call_distribution R original_distribution)"

text \<open>The module \<^verbatim>\<open>importlib.metadata\<close>: the current bindings of its two attributes.\<close>

record metadata_module =
  metadata_version :: version_fn
  metadata_distribution :: distribution_fn

definition pristine :: metadata_module where
  "pristine = \<lparr>metadata_version = Registry_version,
               metadata_distribution = Registry_distribution\<rparr>"

text \<open>Truth value of an argument that is \<^verbatim>\<open>None\<close> or a path string.\<close>

definition truthy :: "string option \<Rightarrow> bool" where
  "truthy a = (case a of None \<Rightarrow> False | Some s \<Rightarrow> s \<noteq> [])"

text \<open>Lines 67-70.\<close>

definition compute_FAKE_VERSIONS ::
  "filesystem \<Rightarrow> string option \<Rightarrow> string option \<Rightarrow> (exception + dict) \<times> printed list" where
  "compute_FAKE_VERSIONS fs excludes_file requirements_file =
     (if truthy excludes_file \<and> truthy requirements_file
      then load_exclude_packages_and_versions fs (the excludes_file) (the requirements_file)
      else (Inr [], []))"

text \<open>Lines 76-77 and 112-113.\<close>

definition apply_patches :: "dict \<Rightarrow> metadata_module \<Rightarrow> metadata_module" where
  "apply_patches FAKE_VERSIONS m =
     \<lparr>metadata_version = Patched_version FAKE_VERSIONS (metadata_version m),
      metadata_distribution = Patched_distribution FAKE_VERSIONS (metadata_distribution m)\<rparr>"

text \<open>
  Lines 63-119. The state is the module, \<open>None\<close> when \<^verbatim>\<open>import importlib.metadata\<close>
  raises \<^verbatim>\<open>ImportError\<close>. The result is the returned boolean or the exception raised,
  the lines printed, and the new state.
\<close>

definition patch_importlib_metadata ::
  "filesystem \<Rightarrow> string option \<Rightarrow> string option \<Rightarrow> metadata_module option \<Rightarrow>
     ((exception + bool) \<times> printed list) \<times> metadata_module option" where
  "patch_importlib_metadata fs excludes_file requirements_file s =
     (case compute_FAKE_VERSIONS fs excludes_file requirements_file of
        (Inl e, out) \<Rightarrow> ((Inl e, out), s)
      | (Inr FAKE_VERSIONS, out) \<Rightarrow>
          (case s of
             None \<Rightarrow> ((Inr False, out), None)
           | Some m \<Rightarrow> ((Inr True, out), Some (apply_patches FAKE_VERSIONS m))))"

text \<open>
  The function value a wrapper holds in its closure as \<^verbatim>\<open>original_version\<close>
  (\<^verbatim>\<open>original_distribution\<close>); the registry's own functions are no wrappers.
\<close>

primrec captured_original_version :: "version_fn \<Rightarrow> version_fn option" where
  "captured_original_version Registry_version = None"
| "captured_original_version (Patched_version FAKE_VERSIONS original_version) =
     Some original_version"

primrec captured_original_distribution :: "distribution_fn \<Rightarrow> distribution_fn option" where
  "captured_original_distribution Registry_distribution = None"
| "captured_original_distribution (Patched_distribution FAKE_VERSIONS original_distribution) =
     Some original_distribution"

section \<open>Example inputs\<close>

text \<open>
  A file system that holds the two lists under their usual names and nothing else: every
  other path is missing.
\<close>

definition two_files :: "string list \<Rightarrow> string list \<Rightarrow> filesystem" where
  "two_files excludes requirements =
     (\<lambda>p. if p = Path ''nuitka_excludes.txt'' then Lines excludes
          else if p = Path ''requirements.txt'' then Lines requirements
          else Raises FileNotFoundError)"

text \<open>A registry in which no package is installed.\<close>

definition no_packages :: "unit registry" where
  "no_packages =
     \<lparr>registry_version = (\<lambda>dist_name. Inl (PackageNotFoundError dist_name)),
      registry_distribution = (\<lambda>dist_name. Inl (PackageNotFoundError dist_name))\<rparr>"

text \<open>A file system in which the excludes list exists but may not be read.\<close>

definition unreadable_excludes :: filesystem where
  "unreadable_excludes =
     (\<lambda>p. if p = Path ''nuitka_excludes.txt'' then Raises PermissionError
          else if p = Path ''requirements.txt'' then Lines [''torch==2.1.0'']
          else Raises FileNotFoundError)"

text \<open>
  The form \<^verbatim>\<open>name==version\<close> in the words of the specification, read generously: after
  trimming, a non-empty package name of letters, digits, \<^verbatim>\<open>.\<close>, \<^verbatim>\<open>_\<close> and
  \<^verbatim>\<open>-\<close>, then \<^verbatim>\<open>==\<close>, then a non-empty rest. It is used only to state which lines
  the specification calls unrecognized; the code does not compute it.
\<close>

definition is_name_char :: "char \<Rightarrow> bool" where
  "is_name_char c =
     (let n = (of_char c :: nat) in
      (48 \<le> n \<and> n \<le> 57) \<or> (65 \<le> n \<and> n \<le> 90) \<or> (97 \<le> n \<and> n \<le> 122)
      \<or> c = CHR ''-'' \<or> c = CHR ''_'' \<or> c = CHR ''.'')"

definition spec_exact_form :: "string \<Rightarrow> bool" where
  "spec_exact_form l =
     (case split_eqeq (strip l) of
        None \<Rightarrow> False
      | Some (package, version) \<Rightarrow>
          strip package \<noteq> [] \<and> list_all is_name_char (strip package) \<and> strip version \<noteq> [])"

text \<open>
  The requirements line \<^verbatim>\<open>pywin32; sys_platform == "win32"\<close>: a pin without a version,
  with an environment marker.
\<close>

definition marker_line :: string where
  "marker_line = ''pywin32; sys_platform == '' @ [CHR 0x22] @ ''win32'' @ [CHR 0x22]"

section \<open>Properties of the resolver\<close>

subsection \<open>The map that is built\<close>

lemma map_of_fake_loop:
  "map_of (fake_loop pv xs acc) p =
     (if p \<in> set xs then Some (loop_version pv p) else map_of acc p)"
  by (induction xs arbitrary: acc) (auto simp: update_conv')

lemma map_of_add_special_mappings:
  "map_of (add_special_mappings pv fv) p =
     (if p = ''sklearn'' \<and> map_of pv ''scikit-learn'' \<noteq> None then map_of pv ''scikit-learn''
      else if p = ''PIL'' \<and> map_of pv ''pillow'' \<noteq> None then map_of pv ''pillow''
      else map_of fv p)"
  by (auto simp: add_special_mappings_def Let_def update_conv' split: option.splits)

text \<open>
  The content of the result depends on the excluded names only as a set: the order in
  which the loop visits them does not matter.
\<close>

lemma map_of_build_fake_versions:
  "map_of (build_fake_versions excluded pv) p =
     (if p = ''sklearn'' \<and> map_of pv ''scikit-learn'' \<noteq> None then map_of pv ''scikit-learn''
      else if p = ''PIL'' \<and> map_of pv ''pillow'' \<noteq> None then map_of pv ''pillow''
      else if p \<in> set excluded then Some (loop_version pv p) else None)"
  by (simp add: build_fake_versions_def map_of_add_special_mappings map_of_fake_loop)

lemma load_Inr_cases:
  assumes "load_exclude_packages_and_versions fs ef rf = (Inr fake, out)"
  obtains excluded pv where
    "fake = build_fake_versions excluded pv"
    "set excluded = exclusion_set fs ef"
    "map_of pv = version_table fs rf"
  using assms
  by (auto simp: load_exclude_packages_and_versions_def read_excludes_def read_requirements_def
      exclusion_set_def version_table_def split: file_state.splits if_splits)

subsection \<open>Resolution of excluded names\<close>

text \<open>
  C1, as stated, fails: the name \<^verbatim>\<open>sklearn\<close> is excluded and has its own entry
  \<^verbatim>\<open>sklearn==0.0\<close> in the Version Table, but lines 58-59 overwrite the value chosen
  in the loop with the version of \<^verbatim>\<open>scikit-learn\<close>.
\<close>

theorem excluded_name_resolution_counterexample:
  "load_exclude_packages_and_versions
     (two_files [''sklearn''] [''sklearn==0.0'', ''scikit-learn==1.3.0''])
     ''nuitka_excludes.txt'' ''requirements.txt'' = (Inr [(''sklearn'', ''1.3.0'')], [])
   \<and> ''sklearn'' \<in> exclusion_set
       (two_files [''sklearn''] [''sklearn==0.0'', ''scikit-learn==1.3.0'']) ''nuitka_excludes.txt''
   \<and> version_table
       (two_files [''sklearn''] [''sklearn==0.0'', ''scikit-learn==1.3.0''])
       ''requirements.txt'' ''sklearn'' = Some ''0.0''
   \<and> map_of [(''sklearn'', ''1.3.0'')] ''sklearn'' \<noteq> Some ''0.0''"
  by code_simp

text \<open>
  C1 (amended): whenever \<^verbatim>\<open>load_exclude_packages_and_versions\<close> returns, every name of
  the Exclusion Set is a key of the returned map. Its value is the version of
  \<^verbatim>\<open>pillow\<close> for \<^verbatim>\<open>PIL\<close> (of \<^verbatim>\<open>scikit-learn\<close> for \<^verbatim>\<open>sklearn\<close>) when the Version
  Table has that alias; otherwise it is the name's own Version Table entry when that is
  present and not the empty string, and the default \<^verbatim>\<open>1.0.0\<close> in every other case.
\<close>

theorem excluded_name_resolution:
  assumes "load_exclude_packages_and_versions fs ef rf = (Inr fake, out)"
    and "package \<in> exclusion_set fs ef"
  shows "map_of fake package = Some
     (if package = ''PIL'' \<and> version_table fs rf ''pillow'' \<noteq> None
        then the (version_table fs rf ''pillow'')
      else if package = ''sklearn'' \<and> version_table fs rf ''scikit-learn'' \<noteq> None
        then the (version_table fs rf ''scikit-learn'')
      else if version_table fs rf package = None \<or> version_table fs rf package = Some []
        then default_version
      else the (version_table fs rf package))"
proof -
  from assms(1) obtain excluded pv where
    fake: "fake = build_fake_versions excluded pv"
    and ex: "set excluded = exclusion_set fs ef"
    and pv: "map_of pv = version_table fs rf"
    by (rule load_Inr_cases)
  from assms(2) ex have mem: "package \<in> set excluded" by simp
  show ?thesis
    unfolding fake pv [symmetric]
    using mem
    by (auto simp: map_of_build_fake_versions loop_version_def get_default_def Let_def)
qed

theorem excluded_name_resolution_witness:
  "load_exclude_packages_and_versions
     (two_files [''PIL'', ''bar'', ''foo''] [''foo==2.3.1'', ''pillow==9.5.0''])
     ''nuitka_excludes.txt'' ''requirements.txt''
     = (Inr [(''PIL'', ''9.5.0''), (''bar'', ''1.0.0''), (''foo'', ''2.3.1'')], [])
   \<and> ''bar'' \<in> exclusion_set
       (two_files [''PIL'', ''bar'', ''foo''] [''foo==2.3.1'', ''pillow==9.5.0''])
       ''nuitka_excludes.txt''
   \<and> map_of [(''PIL'', ''9.5.0''), (''bar'', ''1.0.0''), (''foo'', ''2.3.1'')] ''bar''
       = Some ''1.0.0''"
proof -
  let ?fs = "two_files [''PIL'', ''bar'', ''foo''] [''foo==2.3.1'', ''pillow==9.5.0'']"
  have h1: "load_exclude_packages_and_versions ?fs ''nuitka_excludes.txt'' ''requirements.txt''
     = (Inr [(''PIL'', ''9.5.0''), (''bar'', ''1.0.0''), (''foo'', ''2.3.1'')], [])"
    by code_simp
  have h2: "''bar'' \<in> exclusion_set ?fs ''nuitka_excludes.txt''"
    by code_simp
  have h3: "version_table ?fs ''requirements.txt'' ''bar'' = None"
    by code_simp
  from excluded_name_resolution [OF h1 h2] h3
  have "map_of [(''PIL'', ''9.5.0''), (''bar'', ''1.0.0''), (''foo'', ''2.3.1'')] ''bar''
       = Some default_version"
    by simp
  with h1 h2 show ?thesis by (simp add: default_version_def)
qed

text \<open>
  C2, as stated, fails for \<^verbatim>\<open>PIL\<close>: with \<^verbatim>\<open>PIL==1.1.7\<close> and \<^verbatim>\<open>pillow==9.5.0\<close>
  both in the Version Table, the map gives \<^verbatim>\<open>PIL\<close> the version of \<^verbatim>\<open>pillow\<close>
  (lines 56-57), not its exact-match version.
\<close>

theorem exact_entry_precedence_counterexample:
  "load_exclude_packages_and_versions
     (two_files [''PIL''] [''PIL==1.1.7'', ''pillow==9.5.0''])
     ''nuitka_excludes.txt'' ''requirements.txt'' = (Inr [(''PIL'', ''9.5.0'')], [])
   \<and> ''PIL'' \<in> exclusion_set
       (two_files [''PIL''] [''PIL==1.1.7'', ''pillow==9.5.0'']) ''nuitka_excludes.txt''
   \<and> version_table
       (two_files [''PIL''] [''PIL==1.1.7'', ''pillow==9.5.0''])
       ''requirements.txt'' ''PIL'' = Some ''1.1.7''
   \<and> map_of [(''PIL'', ''9.5.0'')] ''PIL'' \<noteq> Some ''1.1.7''"
  by code_simp

text \<open>
  C2 (amended): for an excluded name with an exact entry in the Version Table whose
  version is not the empty string, the map gives that version, ahead of the alias
  fallback and of the default; the exceptions are \<^verbatim>\<open>PIL\<close> when \<^verbatim>\<open>pillow\<close> is in the
  Version Table and \<^verbatim>\<open>sklearn\<close> when \<^verbatim>\<open>scikit-learn\<close> is, which get the version of
  that canonical name.
\<close>

theorem exact_entry_precedence:
  assumes "load_exclude_packages_and_versions fs ef rf = (Inr fake, out)"
    and "package \<in> exclusion_set fs ef"
    and "version_table fs rf package = Some v"
    and "v \<noteq> []"
  shows "map_of fake package = Some
     (if package = ''PIL'' \<and> version_table fs rf ''pillow'' \<noteq> None
        then the (version_table fs rf ''pillow'')
      else if package = ''sklearn'' \<and> version_table fs rf ''scikit-learn'' \<noteq> None
        then the (version_table fs rf ''scikit-learn'')
      else v)"
proof -
  from assms(1) obtain excluded pv where
    fake: "fake = build_fake_versions excluded pv"
    and ex: "set excluded = exclusion_set fs ef"
    and pv: "map_of pv = version_table fs rf"
    by (rule load_Inr_cases)
  from assms(2) ex have mem: "package \<in> set excluded" by simp
  from assms(3) pv have entry: "map_of pv package = Some v" by simp
  show ?thesis
    unfolding fake pv [symmetric]
    using mem entry assms(4)
    by (auto simp: map_of_build_fake_versions loop_version_def Let_def)
qed

theorem exact_entry_precedence_witness:
  "load_exclude_packages_and_versions
     (two_files [''foo'', ''PIL''] [''foo==2.3.1'', ''PIL==1.1.7''])
     ''nuitka_excludes.txt'' ''requirements.txt''
     = (Inr [(''foo'', ''2.3.1''), (''PIL'', ''1.1.7'')], [])
   \<and> ''PIL'' \<in> exclusion_set
       (two_files [''foo'', ''PIL''] [''foo==2.3.1'', ''PIL==1.1.7'']) ''nuitka_excludes.txt''
   \<and> version_table (two_files [''foo'', ''PIL''] [''foo==2.3.1'', ''PIL==1.1.7''])
       ''requirements.txt'' ''PIL'' = Some ''1.1.7''
   \<and> ''1.1.7'' \<noteq> []
   \<and> map_of [(''foo'', ''2.3.1''), (''PIL'', ''1.1.7'')] ''PIL'' = Some ''1.1.7''"
proof -
  let ?fs = "two_files [''foo'', ''PIL''] [''foo==2.3.1'', ''PIL==1.1.7'']"
  have h1: "load_exclude_packages_and_versions ?fs ''nuitka_excludes.txt'' ''requirements.txt''
     = (Inr [(''foo'', ''2.3.1''), (''PIL'', ''1.1.7'')], [])"
    by code_simp
  have h2: "''PIL'' \<in> exclusion_set ?fs ''nuitka_excludes.txt''"
    by code_simp
  have h3: "version_table ?fs ''requirements.txt'' ''PIL'' = Some ''1.1.7''"
    by code_simp
  have h4: "''1.1.7'' \<noteq> []" by simp
  have h5: "version_table ?fs ''requirements.txt'' ''pillow'' = None"
    by code_simp
  from exact_entry_precedence [OF h1 h2 h3 h4] h5
  have "map_of [(''foo'', ''2.3.1''), (''PIL'', ''1.1.7'')] ''PIL'' = Some ''1.1.7''"
    by simp
  with h1 h2 h3 show ?thesis by simp
qed

subsection \<open>Sources that cannot be read\<close>

lemma read_excludes_other:
  "p \<noteq> q \<Longrightarrow> read_excludes (fs(q := x)) p = read_excludes fs p"
  by (simp add: read_excludes_def)

lemma read_requirements_other:
  "p \<noteq> q \<Longrightarrow> read_requirements (fs(q := x)) p = read_requirements fs p"
  by (simp add: read_requirements_def)

lemma read_excludes_ok:
  "\<forall>e. fs p = Raises e \<longrightarrow> e = FileNotFoundError \<Longrightarrow> \<exists>x w. read_excludes fs p = (Inr x, w)"
  by (auto simp: read_excludes_def split: file_state.splits)

lemma read_requirements_ok:
  "\<forall>e. fs p = Raises e \<longrightarrow> e = FileNotFoundError \<Longrightarrow> \<exists>x w. read_requirements fs p = (Inr x, w)"
  by (auto simp: read_requirements_def split: file_state.splits)

lemma load_missing_sources:
  assumes "\<forall>e. fs (Path ef) = Raises e \<longrightarrow> e = FileNotFoundError"
    and "\<forall>e. fs (Path rf) = Raises e \<longrightarrow> e = FileNotFoundError"
  shows "(\<exists>fake. fst (load_exclude_packages_and_versions fs ef rf) = Inr fake)
    \<and> (fs (Path ef) = Raises FileNotFoundError \<longrightarrow>
         Warning_not_found (Path ef) \<in> set (snd (load_exclude_packages_and_versions fs ef rf))
         \<and> fst (load_exclude_packages_and_versions fs ef rf)
             = fst (load_exclude_packages_and_versions (fs(Path ef := Lines [])) ef rf))
    \<and> (fs (Path rf) = Raises FileNotFoundError \<longrightarrow>
         Warning_not_found (Path rf) \<in> set (snd (load_exclude_packages_and_versions fs ef rf))
         \<and> fst (load_exclude_packages_and_versions fs ef rf)
             = fst (load_exclude_packages_and_versions (fs(Path rf := Lines [])) ef rf))"
proof (intro conjI impI)
  from read_excludes_ok [of fs "Path ef", OF assms(1)] obtain x w where
    x: "read_excludes fs (Path ef) = (Inr x, w)" by blast
  from read_requirements_ok [of fs "Path rf", OF assms(2)] obtain y w' where
    y: "read_requirements fs (Path rf) = (Inr y, w')" by blast
  show "\<exists>fake. fst (load_exclude_packages_and_versions fs ef rf) = Inr fake"
    by (simp add: load_exclude_packages_and_versions_def x y)
  {
    assume miss: "fs (Path ef) = Raises FileNotFoundError"
    show "Warning_not_found (Path ef)
        \<in> set (snd (load_exclude_packages_and_versions fs ef rf))"
      using miss y
      by (simp add: load_exclude_packages_and_versions_def read_excludes_def)
    show "fst (load_exclude_packages_and_versions fs ef rf)
        = fst (load_exclude_packages_and_versions (fs(Path ef := Lines [])) ef rf)"
    proof (cases "rf = ef")
      case True
      with miss show ?thesis
        by (simp add: load_exclude_packages_and_versions_def read_excludes_def
            read_requirements_def)
    next
      case False
      with miss y show ?thesis
        by (simp add: load_exclude_packages_and_versions_def read_excludes_def
            read_requirements_other)
    qed
  }
  {
    assume miss: "fs (Path rf) = Raises FileNotFoundError"
    show "Warning_not_found (Path rf)
        \<in> set (snd (load_exclude_packages_and_versions fs ef rf))"
      using miss x
      by (simp add: load_exclude_packages_and_versions_def read_requirements_def)
    show "fst (load_exclude_packages_and_versions fs ef rf)
        = fst (load_exclude_packages_and_versions (fs(Path rf := Lines [])) ef rf)"
    proof (cases "rf = ef")
      case True
      with miss show ?thesis
        by (simp add: load_exclude_packages_and_versions_def read_excludes_def
            read_requirements_def)
    next
      case False
      with miss x show ?thesis
        by (simp add: load_exclude_packages_and_versions_def read_requirements_def
            read_excludes_other)
    qed
  }
qed

lemma load_excludes_raises:
  "fs (Path ef) = Raises e \<Longrightarrow> e \<noteq> FileNotFoundError \<Longrightarrow>
     load_exclude_packages_and_versions fs ef rf = (Inl e, [])"
  by (simp add: load_exclude_packages_and_versions_def read_excludes_def)

lemma load_requirements_raises:
  assumes "\<forall>e'. fs (Path ef) = Raises e' \<longrightarrow> e' = FileNotFoundError"
    and "fs (Path rf) = Raises e" and "e \<noteq> FileNotFoundError"
  shows "fst (load_exclude_packages_and_versions fs ef rf) = Inl e"
proof -
  from read_excludes_ok [of fs "Path ef", OF assms(1)] obtain x w where
    x: "read_excludes fs (Path ef) = (Inr x, w)" by blast
  from assms(2,3) have "read_requirements fs (Path rf) = (Inl e, [])"
    by (simp add: read_requirements_def)
  with x show ?thesis
    by (simp add: load_exclude_packages_and_versions_def)
qed

text \<open>
  C5, as stated, fails: only \<^verbatim>\<open>FileNotFoundError\<close> is caught (lines 20 and 34). When
  opening the excludes list raises \<^verbatim>\<open>PermissionError\<close>, the call raises it and prints
  no warning.
\<close>

theorem unreadable_source_counterexample:
  "load_exclude_packages_and_versions unreadable_excludes
     ''nuitka_excludes.txt'' ''requirements.txt'' = (Inl PermissionError, [])"
  by code_simp

text \<open>
  C5 (amended): when each source is readable or missing (opening it raises nothing or
  \<^verbatim>\<open>FileNotFoundError\<close>), \<^verbatim>\<open>load_exclude_packages_and_versions\<close> returns a map and
  does not raise; for a missing source it prints the warning for that path and returns
  the map it returns when that source is an empty file. When opening the excludes list
  raises any other exception, the call raises that exception and prints nothing; when the
  excludes list is readable or missing and opening the requirements list raises any other
  exception, the call raises that exception.
\<close>

theorem unreadable_source_behaviour:
  "((\<forall>e'. fs (Path ef) = Raises e' \<longrightarrow> e' = FileNotFoundError)
      \<and> (\<forall>e'. fs (Path rf) = Raises e' \<longrightarrow> e' = FileNotFoundError) \<longrightarrow>
        (\<exists>fake. fst (load_exclude_packages_and_versions fs ef rf) = Inr fake)
      \<and> (fs (Path ef) = Raises FileNotFoundError \<longrightarrow>
           Warning_not_found (Path ef)
             \<in> set (snd (load_exclude_packages_and_versions fs ef rf))
           \<and> fst (load_exclude_packages_and_versions fs ef rf)
               = fst (load_exclude_packages_and_versions (fs(Path ef := Lines [])) ef rf))
      \<and> (fs (Path rf) = Raises FileNotFoundError \<longrightarrow>
           Warning_not_found (Path rf)
             \<in> set (snd (load_exclude_packages_and_versions fs ef rf))
           \<and> fst (load_exclude_packages_and_versions fs ef rf)
               = fst (load_exclude_packages_and_versions (fs(Path rf := Lines [])) ef rf)))
   \<and> (fs (Path ef) = Raises e \<and> e \<noteq> FileNotFoundError \<longrightarrow>
        load_exclude_packages_and_versions fs ef rf = (Inl e, []))
   \<and> ((\<forall>e'. fs (Path ef) = Raises e' \<longrightarrow> e' = FileNotFoundError)
        \<and> fs (Path rf) = Raises e \<and> e \<noteq> FileNotFoundError \<longrightarrow>
        fst (load_exclude_packages_and_versions fs ef rf) = Inl e)"
proof (intro conjI)
  show "(\<forall>e'. fs (Path ef) = Raises e' \<longrightarrow> e' = FileNotFoundError)
      \<and> (\<forall>e'. fs (Path rf) = Raises e' \<longrightarrow> e' = FileNotFoundError) \<longrightarrow>
        (\<exists>fake. fst (load_exclude_packages_and_versions fs ef rf) = Inr fake)
      \<and> (fs (Path ef) = Raises FileNotFoundError \<longrightarrow>
           Warning_not_found (Path ef)
             \<in> set (snd (load_exclude_packages_and_versions fs ef rf))
           \<and> fst (load_exclude_packages_and_versions fs ef rf)
               = fst (load_exclude_packages_and_versions (fs(Path ef := Lines [])) ef rf))
      \<and> (fs (Path rf) = Raises FileNotFoundError \<longrightarrow>
           Warning_not_found (Path rf)
             \<in> set (snd (load_exclude_packages_and_versions fs ef rf))
           \<and> fst (load_exclude_packages_and_versions fs ef rf)
               = fst (load_exclude_packages_and_versions (fs(Path rf := Lines [])) ef rf))"
  proof
    assume a: "(\<forall>e'. fs (Path ef) = Raises e' \<longrightarrow> e' = FileNotFoundError)
      \<and> (\<forall>e'. fs (Path rf) = Raises e' \<longrightarrow> e' = FileNotFoundError)"
    then have a1: "\<forall>e'. fs (Path ef) = Raises e' \<longrightarrow> e' = FileNotFoundError"
      and a2: "\<forall>e'. fs (Path rf) = Raises e' \<longrightarrow> e' = FileNotFoundError"
      by blast+
    from a1 a2 show "(\<exists>fake. fst (load_exclude_packages_and_versions fs ef rf) = Inr fake)
      \<and> (fs (Path ef) = Raises FileNotFoundError \<longrightarrow>
           Warning_not_found (Path ef)
             \<in> set (snd (load_exclude_packages_and_versions fs ef rf))
           \<and> fst (load_exclude_packages_and_versions fs ef rf)
               = fst (load_exclude_packages_and_versions (fs(Path ef := Lines [])) ef rf))
      \<and> (fs (Path rf) = Raises FileNotFoundError \<longrightarrow>
           Warning_not_found (Path rf)
             \<in> set (snd (load_exclude_packages_and_versions fs ef rf))
           \<and> fst (load_exclude_packages_and_versions fs ef rf)
               = fst (load_exclude_packages_and_versions (fs(Path rf := Lines [])) ef rf))"
      by (rule load_missing_sources)
  qed
next
  show "fs (Path ef) = Raises e \<and> e \<noteq> FileNotFoundError \<longrightarrow>
        load_exclude_packages_and_versions fs ef rf = (Inl e, [])"
    using load_excludes_raises by blast
next
  show "(\<forall>e'. fs (Path ef) = Raises e' \<longrightarrow> e' = FileNotFoundError)
        \<and> fs (Path rf) = Raises e \<and> e \<noteq> FileNotFoundError \<longrightarrow>
        fst (load_exclude_packages_and_versions fs ef rf) = Inl e"
    using load_requirements_raises by blast
qed

theorem unreadable_source_behaviour_witness:
  "two_files [] [''pillow==9.5.0''] (Path ''absent.txt'') = Raises FileNotFoundError
   \<and> two_files [] [''pillow==9.5.0''] (Path ''requirements.txt'') = Lines [''pillow==9.5.0'']
   \<and> load_exclude_packages_and_versions (two_files [] [''pillow==9.5.0''])
        ''absent.txt'' ''requirements.txt''
       = (Inr [(''PIL'', ''9.5.0'')], [Warning_not_found (Path ''absent.txt'')])
   \<and> fst (load_exclude_packages_and_versions
        ((two_files [] [''pillow==9.5.0''])(Path ''absent.txt'' := Lines []))
        ''absent.txt'' ''requirements.txt'') = Inr [(''PIL'', ''9.5.0'')]
   \<and> ((two_files [''torch''] [])(Path ''requirements.txt'' := Raises IsADirectoryError))
        (Path ''nuitka_excludes.txt'') = Lines [''torch'']
   \<and> ((two_files [''torch''] [])(Path ''requirements.txt'' := Raises IsADirectoryError))
        (Path ''requirements.txt'') = Raises IsADirectoryError
   \<and> IsADirectoryError \<noteq> FileNotFoundError
   \<and> fst (load_exclude_packages_and_versions
        ((two_files [''torch''] [])(Path ''requirements.txt'' := Raises IsADirectoryError))
        ''nuitka_excludes.txt'' ''requirements.txt'') = Inl IsADirectoryError"
proof -
  let ?fs = "two_files [] [''pillow==9.5.0'']"
  let ?gs = "(two_files [''torch''] [])(Path ''requirements.txt'' := Raises IsADirectoryError)"
  have h1: "\<forall>e. ?fs (Path ''absent.txt'') = Raises e \<longrightarrow> e = FileNotFoundError"
    by (simp add: two_files_def)
  have h2: "\<forall>e. ?fs (Path ''requirements.txt'') = Raises e \<longrightarrow> e = FileNotFoundError"
    by (simp add: two_files_def)
  have h3: "?fs (Path ''absent.txt'') = Raises FileNotFoundError"
    by (simp add: two_files_def)
  have h4: "load_exclude_packages_and_versions ?fs ''absent.txt'' ''requirements.txt''
       = (Inr [(''PIL'', ''9.5.0'')], [Warning_not_found (Path ''absent.txt'')])"
    by code_simp
  have h5: "?fs (Path ''requirements.txt'') = Lines [''pillow==9.5.0'']"
    by (simp add: two_files_def)
  from unreadable_source_behaviour [of ?fs "''absent.txt''" "''requirements.txt''"] h1 h2 h3
  have "fst (load_exclude_packages_and_versions ?fs ''absent.txt'' ''requirements.txt'')
      = fst (load_exclude_packages_and_versions (?fs(Path ''absent.txt'' := Lines []))
        ''absent.txt'' ''requirements.txt'')"
    by blast
  with h4 have c1: "fst (load_exclude_packages_and_versions (?fs(Path ''absent.txt'' := Lines []))
        ''absent.txt'' ''requirements.txt'') = Inr [(''PIL'', ''9.5.0'')]"
    by simp
  have g0: "?gs (Path ''nuitka_excludes.txt'') = Lines [''torch'']"
    by (simp add: two_files_def)
  then have g1: "\<forall>e'. ?gs (Path ''nuitka_excludes.txt'') = Raises e'
      \<longrightarrow> e' = FileNotFoundError"
    by simp
  have g3: "?gs (Path ''requirements.txt'') = Raises IsADirectoryError"
    by simp
  have g4: "IsADirectoryError \<noteq> FileNotFoundError" by simp
  from unreadable_source_behaviour [of ?gs "''nuitka_excludes.txt''" "''requirements.txt''" IsADirectoryError]
    g1 g3 g4
  have c2: "fst (load_exclude_packages_and_versions ?gs
        ''nuitka_excludes.txt'' ''requirements.txt'') = Inl IsADirectoryError"
    by blast
  from h3 h5 h4 c1 g0 g3 g4 c2 show ?thesis by blast
qed

subsection \<open>Reverse alias entries\<close>

text \<open>
  C7: whenever \<^verbatim>\<open>load_exclude_packages_and_versions\<close> returns, an entry for
  \<^verbatim>\<open>pillow\<close> in the Version Table makes \<^verbatim>\<open>PIL\<close> a key of the returned map with
  that entry's version, and an entry for \<^verbatim>\<open>scikit-learn\<close> does the same for
  \<^verbatim>\<open>sklearn\<close>; nothing is assumed about the Exclusion Set.
\<close>

theorem reverse_alias_entries:
  assumes "load_exclude_packages_and_versions fs ef rf = (Inr fake, out)"
  shows "(version_table fs rf ''pillow'' = Some v \<longrightarrow> map_of fake ''PIL'' = Some v)
     \<and> (version_table fs rf ''scikit-learn'' = Some w \<longrightarrow> map_of fake ''sklearn'' = Some w)"
proof -
  from assms obtain excluded pv where
    fake: "fake = build_fake_versions excluded pv"
    and pv: "map_of pv = version_table fs rf"
    by (rule load_Inr_cases)
  show ?thesis
    unfolding fake pv [symmetric]
    by (simp add: map_of_build_fake_versions)
qed

theorem reverse_alias_entries_witness:
  "load_exclude_packages_and_versions
     (two_files [''torch''] [''pillow==9.5.0'', ''scikit-learn==1.3.0''])
     ''nuitka_excludes.txt'' ''requirements.txt''
     = (Inr [(''torch'', ''1.0.0''), (''PIL'', ''9.5.0''), (''sklearn'', ''1.3.0'')], [])
   \<and> ''PIL'' \<notin> exclusion_set
        (two_files [''torch''] [''pillow==9.5.0'', ''scikit-learn==1.3.0''])
        ''nuitka_excludes.txt''
   \<and> version_table (two_files [''torch''] [''pillow==9.5.0'', ''scikit-learn==1.3.0''])
        ''requirements.txt'' ''pillow'' = Some ''9.5.0''
   \<and> version_table (two_files [''torch''] [''pillow==9.5.0'', ''scikit-learn==1.3.0''])
        ''requirements.txt'' ''scikit-learn'' = Some ''1.3.0''
   \<and> map_of [(''torch'', ''1.0.0''), (''PIL'', ''9.5.0''), (''sklearn'', ''1.3.0'')] ''PIL''
        = Some ''9.5.0''
   \<and> map_of [(''torch'', ''1.0.0''), (''PIL'', ''9.5.0''), (''sklearn'', ''1.3.0'')] ''sklearn''
        = Some ''1.3.0''"
proof -
  let ?fs = "two_files [''torch''] [''pillow==9.5.0'', ''scikit-learn==1.3.0'']"
  have h1: "load_exclude_packages_and_versions ?fs ''nuitka_excludes.txt'' ''requirements.txt''
     = (Inr [(''torch'', ''1.0.0''), (''PIL'', ''9.5.0''), (''sklearn'', ''1.3.0'')], [])"
    by code_simp
  have h2: "''PIL'' \<notin> exclusion_set ?fs ''nuitka_excludes.txt''"
    by code_simp
  have h3: "version_table ?fs ''requirements.txt'' ''pillow'' = Some ''9.5.0''"
    by code_simp
  have h4: "version_table ?fs ''requirements.txt'' ''scikit-learn'' = Some ''1.3.0''"
    by code_simp
  from reverse_alias_entries [OF h1, of "''9.5.0''" "''1.3.0''"] h3 h4
  have "map_of [(''torch'', ''1.0.0''), (''PIL'', ''9.5.0''), (''sklearn'', ''1.3.0'')] ''PIL''
        = Some ''9.5.0''
     \<and> map_of [(''torch'', ''1.0.0''), (''PIL'', ''9.5.0''), (''sklearn'', ''1.3.0'')] ''sklearn''
        = Some ''1.3.0''"
    by blast
  with h1 h2 h3 h4 show ?thesis by blast
qed

subsection \<open>Requirements lines that are not pins\<close>

text \<open>
  \<^const>\<open>split_eqeq\<close> finds the first occurrence of \<^verbatim>\<open>==\<close>: it fails exactly on the
  texts without one, and otherwise returns the decomposition with the shortest left part.
\<close>

lemma split_eqeq_Some:
  "split_eqeq s = Some (p, v) \<Longrightarrow> s = p @ ''=='' @ v"
  by (induction s arbitrary: p v rule: split_eqeq.induct)
     (auto split: if_splits option.splits)

lemma split_eqeq_minimal:
  "split_eqeq s = Some (p, v) \<Longrightarrow> s = p' @ ''=='' @ v' \<Longrightarrow> length p \<le> length p'"
proof (induction s arbitrary: p v p' rule: split_eqeq.induct)
  case 1
  then show ?case by simp
next
  case (2 c)
  then show ?case by simp
next
  case (3 a b rest)
  show ?case
  proof (cases "a = CHR ''='' \<and> b = CHR ''=''")
    case True
    with 3(2) show ?thesis by simp
  next
    case False
    with 3(2) obtain q where q: "split_eqeq (b # rest) = Some (q, v)" and p: "p = a # q"
      by (auto split: option.splits)
    from False 3(3) obtain p'' where p': "p' = a # p''" and rest: "b # rest = p'' @ ''=='' @ v'"
      by (cases p') auto
    from 3(1) [OF False q rest] p p' show ?thesis by simp
  qed
qed

lemma split_eqeq_complete:
  "s = p @ ''=='' @ v \<Longrightarrow> split_eqeq s \<noteq> None"
proof (induction p arbitrary: s)
  case Nil
  then show ?case by simp
next
  case (Cons a p)
  then obtain b rest where br: "p @ ''=='' @ v = b # rest"
    by (cases p) auto
  with Cons.IH [of "b # rest"] have "split_eqeq (b # rest) \<noteq> None" by simp
  with Cons.prems br show ?case by auto
qed

lemma split_eqeq_None_iff:
  "split_eqeq s = None \<longleftrightarrow> (\<nexists>p v. s = p @ ''=='' @ v)"
proof
  assume "split_eqeq s = None"
  then show "\<nexists>p v. s = p @ ''=='' @ v"
    using split_eqeq_complete by blast
next
  assume n: "\<nexists>p v. s = p @ ''=='' @ v"
  show "split_eqeq s = None"
  proof (cases "split_eqeq s")
    case None
    then show ?thesis .
  next
    case (Some pv)
    obtain p v where "pv = (p, v)" by (cases pv)
    with Some have "split_eqeq s = Some (p, v)" by simp
    then have "s = p @ ''=='' @ v" by (rule split_eqeq_Some)
    with n show ?thesis by blast
  qed
qed

lemma split_eqeq_first:
  assumes "s = p @ ''=='' @ v"
    and "\<forall>p' v'. s = p' @ ''=='' @ v' \<longrightarrow> length p \<le> length p'"
  shows "split_eqeq s = Some (p, v)"
proof -
  from split_eqeq_complete [OF assms(1)] obtain p0 v0 where
    s0: "split_eqeq s = Some (p0, v0)" by auto
  from split_eqeq_Some [OF s0] have e0: "s = p0 @ ''=='' @ v0" .
  from assms(2) e0 have "length p \<le> length p0" by blast
  moreover from split_eqeq_minimal [OF s0 assms(1)] have "length p0 \<le> length p" .
  ultimately have len: "length p = length p0" by simp
  from assms(1) e0 have "p @ ''=='' @ v = p0 @ ''=='' @ v0" by simp
  with len have "p = p0 \<and> v = v0" by simp
  with s0 show ?thesis by simp
qed

lemma requirements_loop_append:
  "requirements_loop (xs @ ys) pv = requirements_loop ys (requirements_loop xs pv)"
  by (induction xs arbitrary: pv) simp_all

lemma requirements_line_entry:
  "strip l \<noteq> [] \<Longrightarrow> \<not> startswith (strip l) ''#'' \<Longrightarrow>
   split_eqeq (strip l) = Some (package, version) \<Longrightarrow>
   requirements_line l pv = AList.update (strip package) (strip version) pv"
  by (simp add: requirements_line_def Let_def)

lemma requirements_line_skipped:
  "strip l = [] \<or> startswith (strip l) ''#'' \<or> split_eqeq (strip l) = None \<Longrightarrow>
   requirements_line l pv = pv"
  by (auto simp: requirements_line_def Let_def)

text \<open>
  C8, as stated, fails: the test of line 31 is \<^verbatim>\<open>'==' in line\<close>, so a line that is
  not of the form \<^verbatim>\<open>name==version\<close> but has \<^verbatim>\<open>==\<close> somewhere, here in an
  environment marker, is split at that place and adds an entry to the Version Table.
\<close>

theorem marker_line_adds_entry_counterexample:
  "strip marker_line \<noteq> []
   \<and> \<not> startswith (strip marker_line) ''#''
   \<and> \<not> spec_exact_form marker_line
   \<and> requirements_loop [marker_line] []
       = [(''pywin32; sys_platform'', [CHR 0x22] @ ''win32'' @ [CHR 0x22])]
   \<and> version_table (two_files [] [marker_line]) ''requirements.txt'' ''pywin32; sys_platform''
       = Some ([CHR 0x22] @ ''win32'' @ [CHR 0x22])"
  by code_simp

text \<open>
  C8 (amended): a requirements line whose trimmed text is empty, starts with \<^verbatim>\<open>#\<close> or
  contains no \<^verbatim>\<open>==\<close> contributes no entry to the Version Table: the table is the one
  built from the other lines. Every other line is split at the first \<^verbatim>\<open>==\<close> of its
  trimmed text, wherever that is, and sets the entry for the trimmed text before it to the
  trimmed text after it. Reading a file that can be opened is never an error, whatever its
  lines are.
\<close>

theorem requirements_line_contribution:
  "(strip l = [] \<or> startswith (strip l) ''#'' \<or> (\<nexists>p v. strip l = p @ ''=='' @ v) \<longrightarrow>
      requirements_loop (before @ l # after) package_versions
        = requirements_loop (before @ after) package_versions)
   \<and> (strip l \<noteq> [] \<and> \<not> startswith (strip l) ''#''
        \<and> strip l = package @ ''=='' @ version
        \<and> (\<forall>p' v'. strip l = p' @ ''=='' @ v' \<longrightarrow> length package \<le> length p') \<longrightarrow>
      requirements_loop (before @ l # after) package_versions
        = requirements_loop after
            (AList.update (strip package) (strip version)
               (requirements_loop before package_versions))
      \<and> map_of (requirements_loop (before @ [l]) package_versions) (strip package)
          = Some (strip version))
   \<and> (fs requirements_file = Lines ls \<longrightarrow>
        read_requirements fs requirements_file = (Inr (requirements_loop ls []), []))"
proof (intro conjI impI)
  assume "strip l = [] \<or> startswith (strip l) ''#'' \<or> (\<nexists>p v. strip l = p @ ''=='' @ v)"
  then have "strip l = [] \<or> startswith (strip l) ''#'' \<or> split_eqeq (strip l) = None"
    unfolding split_eqeq_None_iff .
  then have "requirements_line l pv = pv" for pv
    by (rule requirements_line_skipped)
  then show "requirements_loop (before @ l # after) package_versions
        = requirements_loop (before @ after) package_versions"
    by (simp add: requirements_loop_append)
next
  assume a: "strip l \<noteq> [] \<and> \<not> startswith (strip l) ''#''
        \<and> strip l = package @ ''=='' @ version
        \<and> (\<forall>p' v'. strip l = p' @ ''=='' @ v' \<longrightarrow> length package \<le> length p')"
  then have sp: "split_eqeq (strip l) = Some (package, version)"
    using split_eqeq_first [of "strip l" package version] by blast
  from a have "strip l \<noteq> []" and "\<not> startswith (strip l) ''#''" by blast+
  from requirements_line_entry [OF this sp]
  have line: "requirements_line l pv = AList.update (strip package) (strip version) pv" for pv .
  show "requirements_loop (before @ l # after) package_versions
        = requirements_loop after
            (AList.update (strip package) (strip version)
               (requirements_loop before package_versions))"
    by (simp add: requirements_loop_append line)
  show "map_of (requirements_loop (before @ [l]) package_versions) (strip package)
          = Some (strip version)"
    by (simp add: requirements_loop_append line update_conv')
next
  assume "fs requirements_file = Lines ls"
  then show "read_requirements fs requirements_file = (Inr (requirements_loop ls []), [])"
    by (simp add: read_requirements_def)
qed

theorem requirements_line_contribution_witness:
  "requirements_loop ([''torch==2.1.0''] @ ''numpy>=1.21,<2.0'' # [''pillow==9.5.0'']) []
       = [(''torch'', ''2.1.0''), (''pillow'', ''9.5.0'')]
   \<and> requirements_loop ([''torch==2.1.0''] @ marker_line # [''pillow==9.5.0'']) []
       = [(''torch'', ''2.1.0''),
          (''pywin32; sys_platform'', [CHR 0x22] @ ''win32'' @ [CHR 0x22]),
          (''pillow'', ''9.5.0'')]
   \<and> requirements_loop ([''torch==2.1.0''] @ ''# numpy==1.21'' # [''pillow==9.5.0'']) []
       = [(''torch'', ''2.1.0''), (''pillow'', ''9.5.0'')]"
proof -
  let ?before = "[''torch==2.1.0'']" and ?after = "[''pillow==9.5.0'']"
  have rest: "requirements_loop (?before @ ?after) []
      = [(''torch'', ''2.1.0''), (''pillow'', ''9.5.0'')]"
    by code_simp
  have n1: "split_eqeq (strip ''numpy>=1.21,<2.0'') = None" by code_simp
  then have n2: "\<nexists>p v. strip ''numpy>=1.21,<2.0'' = p @ ''=='' @ v"
    unfolding split_eqeq_None_iff .
  from requirements_line_contribution [of "''numpy>=1.21,<2.0''" ?before ?after "[]"] n2 rest
  have c1: "requirements_loop (?before @ ''numpy>=1.21,<2.0'' # ?after) []
       = [(''torch'', ''2.1.0''), (''pillow'', ''9.5.0'')]"
    by simp
  have k1: "startswith (strip ''# numpy==1.21'') ''#''" by code_simp
  from requirements_line_contribution [of "''# numpy==1.21''" ?before ?after "[]"] k1 rest
  have c3: "requirements_loop (?before @ ''# numpy==1.21'' # ?after) []
       = [(''torch'', ''2.1.0''), (''pillow'', ''9.5.0'')]"
    by simp
  let ?p = "''pywin32; sys_platform ''" and ?v = "'' '' @ [CHR 0x22] @ ''win32'' @ [CHR 0x22]"
  have m1: "strip marker_line \<noteq> []" by code_simp
  have m2: "\<not> startswith (strip marker_line) ''#''" by code_simp
  have m3: "split_eqeq (strip marker_line) = Some (?p, ?v)" by code_simp
  from split_eqeq_Some [OF m3] have m4: "strip marker_line = ?p @ ''=='' @ ?v" .
  from split_eqeq_minimal [OF m3]
  have m5: "\<forall>p' v'. strip marker_line = p' @ ''=='' @ v' \<longrightarrow> length ?p \<le> length p'"
    by blast
  have e1: "strip ?p = ''pywin32; sys_platform''" by code_simp
  have e2: "strip ?v = [CHR 0x22] @ ''win32'' @ [CHR 0x22]" by code_simp
  have e3: "requirements_loop ?after
      (AList.update ''pywin32; sys_platform'' ([CHR 0x22] @ ''win32'' @ [CHR 0x22])
         (requirements_loop ?before []))
      = [(''torch'', ''2.1.0''),
          (''pywin32; sys_platform'', [CHR 0x22] @ ''win32'' @ [CHR 0x22]),
          (''pillow'', ''9.5.0'')]"
    by code_simp
  from requirements_line_contribution [of marker_line ?before ?after "[]" ?p ?v] m1 m2 m4 m5
  have "requirements_loop (?before @ marker_line # ?after) []
        = requirements_loop ?after
            (AList.update (strip ?p) (strip ?v) (requirements_loop ?before []))"
    by blast
  with e1 e2 e3 have c2: "requirements_loop (?before @ marker_line # ?after) []
       = [(''torch'', ''2.1.0''),
          (''pywin32; sys_platform'', [CHR 0x22] @ ''win32'' @ [CHR 0x22]),
          (''pillow'', ''9.5.0'')]"
    by simp
  from c1 c2 c3 show ?thesis by blast
qed

section \<open>Properties of the interceptor\<close>

lemma find_fake_key_None:
  "find_fake_key ks n = None \<longleftrightarrow> (\<forall>k\<in>set ks. normalize k \<noteq> n)"
  by (induction ks) auto

lemma find_fake_key_Some:
  "find_fake_key ks n = Some k \<Longrightarrow> k \<in> set ks \<and> normalize k = n"
  by (induction ks) (auto split: if_splits)

lemma patch_success:
  assumes "patch_importlib_metadata fs ef rf s = ((Inr True, out), s')"
  obtains FAKE m where
    "compute_FAKE_VERSIONS fs ef rf = (Inr FAKE, out)"
    "s = Some m" "s' = Some (apply_patches FAKE m)"
  using assms
  by (auto simp: patch_importlib_metadata_def split: prod.splits sum.splits option.splits)

subsection \<open>Exact matches\<close>

text \<open>
  C3: after \<^verbatim>\<open>patch_importlib_metadata\<close> has returned \<^verbatim>\<open>True\<close>, a version lookup for
  a name that is a key of the Fake Version Map returns exactly the version stored under
  that key, and the trace of registry calls is empty: the original function is not
  invoked. This holds for every registry and every previous binding.
\<close>

theorem exact_key_version_lookup:
  assumes "patch_importlib_metadata fs ef rf s = ((Inr True, out), s')"
    and "compute_FAKE_VERSIONS fs ef rf = (Inr FAKE_VERSIONS, out)"
    and "map_of FAKE_VERSIONS dist_name = Some v"
  shows "\<exists>m'. s' = Some m' \<and> call_version R (metadata_version m') dist_name = (Inr v, [])"
proof -
  from assms(1) obtain F m where
    F: "compute_FAKE_VERSIONS fs ef rf = (Inr F, out)" and s': "s' = Some (apply_patches F m)"
    by (rule patch_success)
  from F assms(2) have "F = FAKE_VERSIONS" by simp
  with s' assms(3) show ?thesis
    by (simp add: apply_patches_def patched_version_def)
qed

theorem exact_key_version_lookup_witness:
  "patch_importlib_metadata (two_files [''torch''] [''torch==2.1.0''])
     (Some ''nuitka_excludes.txt'') (Some ''requirements.txt'') (Some pristine)
     = ((Inr True, []), Some (apply_patches [(''torch'', ''2.1.0'')] pristine))
   \<and> compute_FAKE_VERSIONS (two_files [''torch''] [''torch==2.1.0''])
       (Some ''nuitka_excludes.txt'') (Some ''requirements.txt'')
       = (Inr [(''torch'', ''2.1.0'')], [])
   \<and> map_of [(''torch'', ''2.1.0'')] ''torch'' = Some ''2.1.0''
   \<and> call_version no_packages
        (metadata_version (apply_patches [(''torch'', ''2.1.0'')] pristine)) ''torch''
       = (Inr ''2.1.0'', [])"
proof -
  let ?fs = "two_files [''torch''] [''torch==2.1.0'']"
  have h1: "patch_importlib_metadata ?fs
     (Some ''nuitka_excludes.txt'') (Some ''requirements.txt'') (Some pristine)
     = ((Inr True, []), Some (apply_patches [(''torch'', ''2.1.0'')] pristine))"
    by code_simp
  have h2: "compute_FAKE_VERSIONS ?fs (Some ''nuitka_excludes.txt'') (Some ''requirements.txt'')
       = (Inr [(''torch'', ''2.1.0'')], [])"
    by code_simp
  have h3: "map_of [(''torch'', ''2.1.0'')] ''torch'' = Some ''2.1.0''"
    by simp
  from exact_key_version_lookup [OF h1 h2 h3, of no_packages]
  have "call_version no_packages
        (metadata_version (apply_patches [(''torch'', ''2.1.0'')] pristine)) ''torch''
       = (Inr ''2.1.0'', [])"
    by simp
  with h1 h2 h3 show ?thesis by simp
qed

subsection \<open>Names outside the map\<close>

text \<open>
  C4: after \<^verbatim>\<open>patch_importlib_metadata\<close> has returned \<^verbatim>\<open>True\<close>, a version lookup for
  a name that matches no key of the Fake Version Map, neither exactly nor after
  normalization, is the call of the function that was bound before the patch, with the
  same result and the same trace; on a registry that was not patched before, it is the
  registry's own answer, so the failure for a package that is not installed reaches the
  caller unchanged.
\<close>

theorem unmatched_name_delegates:
  assumes "patch_importlib_metadata fs ef rf s = ((Inr True, out), s')"
    and "compute_FAKE_VERSIONS fs ef rf = (Inr FAKE_VERSIONS, out)"
    and "dist_name \<notin> fst ` set FAKE_VERSIONS"
    and "\<forall>fake_key \<in> fst ` set FAKE_VERSIONS. normalize fake_key \<noteq> normalize dist_name"
  shows "\<exists>m m'. s = Some m \<and> s' = Some m'
     \<and> call_version R (metadata_version m') dist_name
         = call_version R (metadata_version m) dist_name
     \<and> (metadata_version m = Registry_version \<longrightarrow>
          call_version R (metadata_version m') dist_name
            = (registry_version R dist_name, [Version_call dist_name]))"
proof -
  from assms(1) obtain F m where
    F: "compute_FAKE_VERSIONS fs ef rf = (Inr F, out)"
    and s: "s = Some m" and s': "s' = Some (apply_patches F m)"
    by (rule patch_success)
  from F assms(2) have eq: "F = FAKE_VERSIONS" by simp
  from assms(3) have exact: "map_of FAKE_VERSIONS dist_name = None"
    by (simp add: map_of_eq_None_iff)
  from assms(4) have norm:
    "find_fake_key (map fst FAKE_VERSIONS) (normalize dist_name) = None"
    by (simp add: find_fake_key_None)
  have "call_version R (metadata_version (apply_patches FAKE_VERSIONS m)) dist_name
      = call_version R (metadata_version m) dist_name"
    by (simp add: apply_patches_def patched_version_def exact norm)
  with s s' eq show ?thesis by auto
qed

theorem unmatched_name_delegates_witness:
  "patch_importlib_metadata (two_files [''torch''] [''torch==2.1.0''])
     (Some ''nuitka_excludes.txt'') (Some ''requirements.txt'') (Some pristine)
     = ((Inr True, []), Some (apply_patches [(''torch'', ''2.1.0'')] pristine))
   \<and> compute_FAKE_VERSIONS (two_files [''torch''] [''torch==2.1.0''])
       (Some ''nuitka_excludes.txt'') (Some ''requirements.txt'')
       = (Inr [(''torch'', ''2.1.0'')], [])
   \<and> ''numpy'' \<notin> fst ` set [(''torch'', ''2.1.0'')]
   \<and> normalize ''torch'' \<noteq> normalize ''numpy''
   \<and> call_version no_packages
        (metadata_version (apply_patches [(''torch'', ''2.1.0'')] pristine)) ''numpy''
       = (Inl (PackageNotFoundError ''numpy''), [Version_call ''numpy''])"
proof -
  let ?fs = "two_files [''torch''] [''torch==2.1.0'']"
  have h1: "patch_importlib_metadata ?fs
     (Some ''nuitka_excludes.txt'') (Some ''requirements.txt'') (Some pristine)
     = ((Inr True, []), Some (apply_patches [(''torch'', ''2.1.0'')] pristine))"
    by code_simp
  have h2: "compute_FAKE_VERSIONS ?fs (Some ''nuitka_excludes.txt'') (Some ''requirements.txt'')
       = (Inr [(''torch'', ''2.1.0'')], [])"
    by code_simp
  have h3: "''numpy'' \<notin> fst ` set [(''torch'', ''2.1.0'')]"
    by simp
  have h4: "\<forall>fake_key \<in> fst ` set [(''torch'', ''2.1.0'')].
      normalize fake_key \<noteq> normalize ''numpy''"
    by code_simp
  from unmatched_name_delegates [OF h1 h2 h3 h4, of no_packages]
  have "call_version no_packages
        (metadata_version (apply_patches [(''torch'', ''2.1.0'')] pristine)) ''numpy''
       = (Inl (PackageNotFoundError ''numpy''), [Version_call ''numpy''])"
    by (simp add: pristine_def apply_patches_def no_packages_def)
  moreover have "normalize ''torch'' \<noteq> normalize ''numpy''"
    by code_simp
  ultimately show ?thesis using h1 h2 h3 by blast
qed

subsection \<open>Patching twice\<close>

text \<open>
  C6, as stated, fails: the second call reads \<^verbatim>\<open>metadata.version\<close> and
  \<^verbatim>\<open>metadata.distribution\<close> again (lines 76-77), which by then are the wrappers of the
  first call. After a first patch with \<^verbatim>\<open>torch\<close> excluded and a second patch without
  files, a lookup of \<^verbatim>\<open>torch\<close> is still answered by the first wrapper.
\<close>

theorem second_patch_captures_wrapper_counterexample:
  "snd (patch_importlib_metadata (two_files [''torch''] [''torch==2.1.0'']) None None
      (snd (patch_importlib_metadata (two_files [''torch''] [''torch==2.1.0''])
        (Some ''nuitka_excludes.txt'') (Some ''requirements.txt'') (Some pristine))))
     = Some \<lparr>metadata_version =
               Patched_version [] (Patched_version [(''torch'', ''2.1.0'')] Registry_version),
             metadata_distribution =
               Patched_distribution []
                 (Patched_distribution [(''torch'', ''2.1.0'')] Registry_distribution)\<rparr>
   \<and> captured_original_version
        (Patched_version [] (Patched_version [(''torch'', ''2.1.0'')] Registry_version))
       \<noteq> Some Registry_version
   \<and> captured_original_distribution
        (Patched_distribution []
           (Patched_distribution [(''torch'', ''2.1.0'')] Registry_distribution))
       \<noteq> Some Registry_distribution
   \<and> call_version no_packages
        (Patched_version [] (Patched_version [(''torch'', ''2.1.0'')] Registry_version))
        ''torch'' = (Inr ''2.1.0'', [])"
  by code_simp

lemma patched_version_trace:
  assumes "\<And>n. snd (original n) = [] \<or> snd (original n) = [c n]"
  shows "snd (patched_version F original n) = [] \<or> snd (patched_version F original n) = [c n]"
  using assms [of n] by (auto simp: patched_version_def split: option.splits)

lemma patched_distribution_trace:
  assumes "\<And>n. snd (original n) = [] \<or> snd (original n) = [c n]"
  shows "snd (patched_distribution F original n) = []
     \<or> snd (patched_distribution F original n) = [c n]"
  using assms [of n] by (auto simp: patched_distribution_def split: option.splits)

text \<open>
  C6 (amended): after two successful calls of \<^verbatim>\<open>patch_importlib_metadata\<close>, the
  functions captured by the second installation are the wrappers installed by the first
  call, which hold the functions bound before it. A lookup consults the second map, then
  the first map, then the function bound before the first call; on a registry that was
  not patched before, every lookup returns after at most one call of the registry's own
  function, so there is no infinite recursion and the registry's functions stay reachable.
\<close>

theorem patch_twice_chain:
  assumes "patch_importlib_metadata fs1 ef1 rf1 s = ((Inr True, out1), s1)"
    and "patch_importlib_metadata fs2 ef2 rf2 s1 = ((Inr True, out2), s2)"
    and "compute_FAKE_VERSIONS fs1 ef1 rf1 = (Inr F1, out1)"
    and "compute_FAKE_VERSIONS fs2 ef2 rf2 = (Inr F2, out2)"
  shows "\<exists>m m2. s = Some m \<and> s2 = Some m2
     \<and> captured_original_version (metadata_version m2)
         = Some (Patched_version F1 (metadata_version m))
     \<and> captured_original_distribution (metadata_distribution m2)
         = Some (Patched_distribution F1 (metadata_distribution m))
     \<and> call_version R (metadata_version m2) dist_name
         = patched_version F2 (patched_version F1 (call_version R (metadata_version m)))
             dist_name
     \<and> call_distribution R (metadata_distribution m2) dist_name
         = patched_distribution F2
             (patched_distribution F1 (call_distribution R (metadata_distribution m)))
             dist_name
     \<and> (m = pristine \<longrightarrow>
          (snd (call_version R (metadata_version m2) dist_name) = []
           \<or> snd (call_version R (metadata_version m2) dist_name) = [Version_call dist_name])
        \<and> (snd (call_distribution R (metadata_distribution m2) dist_name) = []
           \<or> snd (call_distribution R (metadata_distribution m2) dist_name)
                = [Distribution_call dist_name]))"
proof -
  from assms(1) obtain G1 m where
    G1: "compute_FAKE_VERSIONS fs1 ef1 rf1 = (Inr G1, out1)"
    and s: "s = Some m" and s1: "s1 = Some (apply_patches G1 m)"
    by (rule patch_success)
  from assms(2) obtain G2 m1 where
    G2: "compute_FAKE_VERSIONS fs2 ef2 rf2 = (Inr G2, out2)"
    and s1': "s1 = Some m1" and s2: "s2 = Some (apply_patches G2 m1)"
    by (rule patch_success)
  from G1 assms(3) have e1: "G1 = F1" by simp
  from G2 assms(4) have e2: "G2 = F2" by simp
  from s1 s1' e1 have m1: "m1 = apply_patches F1 m" by simp
  let ?m2 = "apply_patches F2 (apply_patches F1 m)"
  have v: "snd (patched_version F2 (patched_version F1
        (\<lambda>n. (registry_version R n, [Version_call n]))) dist_name) = []
     \<or> snd (patched_version F2 (patched_version F1
        (\<lambda>n. (registry_version R n, [Version_call n]))) dist_name) = [Version_call dist_name]"
    by (rule patched_version_trace, rule patched_version_trace) simp
  have d: "snd (patched_distribution F2 (patched_distribution F1
        (\<lambda>n. (map_sum id Real (registry_distribution R n), [Distribution_call n])))
          dist_name) = []
     \<or> snd (patched_distribution F2 (patched_distribution F1
        (\<lambda>n. (map_sum id Real (registry_distribution R n), [Distribution_call n])))
          dist_name) = [Distribution_call dist_name]"
    by (rule patched_distribution_trace, rule patched_distribution_trace) simp
  have "s2 = Some ?m2" using s2 e2 m1 by simp
  moreover have "captured_original_version (metadata_version ?m2)
         = Some (Patched_version F1 (metadata_version m))"
    by (simp add: apply_patches_def)
  moreover have "captured_original_distribution (metadata_distribution ?m2)
         = Some (Patched_distribution F1 (metadata_distribution m))"
    by (simp add: apply_patches_def)
  moreover have "call_version R (metadata_version ?m2) dist_name
         = patched_version F2 (patched_version F1 (call_version R (metadata_version m)))
             dist_name"
    by (simp add: apply_patches_def)
  moreover have "call_distribution R (metadata_distribution ?m2) dist_name
         = patched_distribution F2
             (patched_distribution F1 (call_distribution R (metadata_distribution m)))
             dist_name"
    by (simp add: apply_patches_def)
  moreover have "m = pristine \<longrightarrow>
          (snd (call_version R (metadata_version ?m2) dist_name) = []
           \<or> snd (call_version R (metadata_version ?m2) dist_name) = [Version_call dist_name])
        \<and> (snd (call_distribution R (metadata_distribution ?m2) dist_name) = []
           \<or> snd (call_distribution R (metadata_distribution ?m2) dist_name)
                = [Distribution_call dist_name])"
    using v d by (simp add: apply_patches_def pristine_def)
  ultimately show ?thesis using s by blast
qed

theorem patch_twice_chain_witness:
  "patch_importlib_metadata (two_files [''torch''] [''torch==2.1.0''])
     (Some ''nuitka_excludes.txt'') (Some ''requirements.txt'') (Some pristine)
     = ((Inr True, []), Some (apply_patches [(''torch'', ''2.1.0'')] pristine))
   \<and> patch_importlib_metadata (two_files [''torch''] [''torch==2.1.0'']) None None
       (Some (apply_patches [(''torch'', ''2.1.0'')] pristine))
     = ((Inr True, []), Some (apply_patches [] (apply_patches [(''torch'', ''2.1.0'')] pristine)))
   \<and> compute_FAKE_VERSIONS (two_files [''torch''] [''torch==2.1.0''])
       (Some ''nuitka_excludes.txt'') (Some ''requirements.txt'')
       = (Inr [(''torch'', ''2.1.0'')], [])
   \<and> compute_FAKE_VERSIONS (two_files [''torch''] [''torch==2.1.0'']) None None = (Inr [], [])
   \<and> call_version no_packages
        (metadata_version (apply_patches [] (apply_patches [(''torch'', ''2.1.0'')] pristine)))
        ''numpy'' = (Inl (PackageNotFoundError ''numpy''), [Version_call ''numpy''])"
proof -
  let ?fs = "two_files [''torch''] [''torch==2.1.0'']"
  let ?m1 = "apply_patches [(''torch'', ''2.1.0'')] pristine"
  have h1: "patch_importlib_metadata ?fs
     (Some ''nuitka_excludes.txt'') (Some ''requirements.txt'') (Some pristine)
     = ((Inr True, []), Some ?m1)"
    by code_simp
  have h2: "patch_importlib_metadata ?fs None None (Some ?m1)
     = ((Inr True, []), Some (apply_patches [] ?m1))"
    by code_simp
  have h3: "compute_FAKE_VERSIONS ?fs (Some ''nuitka_excludes.txt'') (Some ''requirements.txt'')
       = (Inr [(''torch'', ''2.1.0'')], [])"
    by code_simp
  have h4: "compute_FAKE_VERSIONS ?fs None None = (Inr [], [])"
    by code_simp
  have h5: "patched_version [] (patched_version [(''torch'', ''2.1.0'')]
       (call_version no_packages (metadata_version pristine))) ''numpy''
       = (Inl (PackageNotFoundError ''numpy''), [Version_call ''numpy''])"
    by code_simp
  from patch_twice_chain [OF h1 h2 h3 h4, of no_packages "''numpy''"] h5
  have "call_version no_packages (metadata_version (apply_patches [] ?m1)) ''numpy''
       = (Inl (PackageNotFoundError ''numpy''), [Version_call ''numpy''])"
    by simp
  with h1 h2 h3 h4 show ?thesis by simp
qed

subsection \<open>Matching after normalization\<close>













subsection \<open>Patching without files\<close>

text \<open>
  C10: when \<^verbatim>\<open>excludes_file\<close> or \<^verbatim>\<open>requirements_file\<close> is \<^verbatim>\<open>None\<close>, also when
  the other one is given, the Fake Version Map is empty, the patch succeeds, and every
  version and distribution lookup afterwards is the call of the function bound before,
  with the same result and trace.
\<close>

theorem no_files_empty_map_delegates:
  assumes "excludes_file = None \<or> requirements_file = None"
  shows "compute_FAKE_VERSIONS fs excludes_file requirements_file = (Inr [], [])
     \<and> patch_importlib_metadata fs excludes_file requirements_file (Some m)
         = ((Inr True, []), Some (apply_patches [] m))
     \<and> call_version R (metadata_version (apply_patches [] m)) dist_name
         = call_version R (metadata_version m) dist_name
     \<and> call_distribution R (metadata_distribution (apply_patches [] m)) dist_name
         = call_distribution R (metadata_distribution m) dist_name"
proof -
  from assms have fake: "compute_FAKE_VERSIONS fs excludes_file requirements_file = (Inr [], [])"
    by (auto simp: compute_FAKE_VERSIONS_def truthy_def)
  then have "patch_importlib_metadata fs excludes_file requirements_file (Some m)
         = ((Inr True, []), Some (apply_patches [] m))"
    by (simp add: patch_importlib_metadata_def)
  moreover have "call_version R (metadata_version (apply_patches [] m)) dist_name
         = call_version R (metadata_version m) dist_name"
    by (simp add: apply_patches_def patched_version_def)
  moreover have "call_distribution R (metadata_distribution (apply_patches [] m)) dist_name
         = call_distribution R (metadata_distribution m) dist_name"
    by (simp add: apply_patches_def patched_distribution_def)
  ultimately show ?thesis using fake by simp
qed

theorem no_files_empty_map_delegates_witness:
  "(Some ''nuitka_excludes.txt'' = None \<or> (None :: string option) = None)
   \<and> compute_FAKE_VERSIONS (two_files [''torch''] [''torch==2.1.0''])
        (Some ''nuitka_excludes.txt'') None = (Inr [], [])
   \<and> patch_importlib_metadata (two_files [''torch''] [''torch==2.1.0''])
        (Some ''nuitka_excludes.txt'') None (Some pristine)
       = ((Inr True, []), Some (apply_patches [] pristine))
   \<and> call_version no_packages (metadata_version (apply_patches [] pristine)) ''torch''
       = (Inl (PackageNotFoundError ''torch''), [Version_call ''torch''])
   \<and> call_distribution no_packages (metadata_distribution (apply_patches [] pristine)) ''torch''
       = (Inl (PackageNotFoundError ''torch''), [Distribution_call ''torch''])"
proof -
  have h: "Some ''nuitka_excludes.txt'' = None \<or> (None :: string option) = None"
    by simp
  have v: "call_version no_packages (metadata_version pristine) ''torch''
       = (Inl (PackageNotFoundError ''torch''), [Version_call ''torch''])"
    by (simp add: pristine_def no_packages_def)
  have d: "call_distribution no_packages (metadata_distribution pristine) ''torch''
       = (Inl (PackageNotFoundError ''torch''), [Distribution_call ''torch''])"
    by (simp add: pristine_def no_packages_def)
  from no_files_empty_map_delegates [OF h, of "two_files [''torch''] [''torch==2.1.0'']" pristine
      no_packages "''torch''"] v d
  show ?thesis by simp
qed

end
